theory Spec2Isabelle
  imports Main "HOL-Library.Word"
begin

section \<open>Tensor accessors (aten/src/ATen/core/TensorAccessor.h)\<close>

text \<open>
  The header defines two families of non-owning views over a strided buffer:
  \<^item> \<open>TensorAccessorBase\<close> / \<open>TensorAccessor\<close>: a data pointer and two pointers to
    \<open>int64_t\<close> arrays (sizes and strides) that live elsewhere;
  \<^item> \<open>PackedTensorAccessorBase\<close> / \<open>PackedTensorAccessor\<close>: a data pointer and two
    \<open>int64_t[N]\<close> arrays embedded in the object, filled by \<open>std::copy\<close> at construction.

  The classes are C++ templates over the element type \<open>T\<close> (here the type variable
  \<open>'a\<close>), the dimensionality \<open>size_t N\<close> (here a field of the records, since HOL has
  no value-indexed types) and a pointer-traits policy that only adds \<open>__restrict__\<close>
  and does not change any computation (not modelled).
\<close>

subsection \<open>Integers and pointers\<close>

text \<open>
  \<open>int64_t\<close> and \<open>size_t\<close> are 64-bit words; \<open>*\<close> and \<open>-\<close> on them wrap around, which
  is what the compiled code computes (ISO C++ leaves signed overflow undefined).
\<close>

type_synonym int64_t = "64 word"
type_synonym size_t = "64 word"

text \<open>
  Memory is a collection of disjoint objects, each named by an address. A pointer is
  an object together with an element offset into it, so that pointer arithmetic moves
  the offset and never leaves the object it started in.

  An \<open>int64_t\<close> pointer designates either an array owned by somebody else
  (\<open>Array\<close>) or one of the two arrays embedded in the packed accessor object at an
  address (\<open>Sizes\<close>, \<open>Strides\<close>).
\<close>

type_synonym addr = nat

datatype i64_object = Array addr | Sizes addr | Strides addr

datatype i64_ptr = I64Ptr i64_object int

datatype data_ptr = DataPtr addr int

text \<open>\<open>p + n\<close> on pointers, \<open>n\<close> a signed number of elements.\<close>

fun i64_ptr_add :: "i64_ptr \<Rightarrow> int \<Rightarrow> i64_ptr" where
  "i64_ptr_add (I64Ptr obj k) n = I64Ptr obj (k + n)"

fun data_ptr_add :: "data_ptr \<Rightarrow> int \<Rightarrow> data_ptr" where
  "data_ptr_add (DataPtr b k) n = DataPtr b (k + n)"

subsection \<open>The two accessor families as records\<close>

text \<open>
  The members \<open>data_\<close>, \<open>sizes_\<close>, \<open>strides_\<close> of the source are the fields
  \<open>data_t\<close>, \<open>sizes_t\<close>, \<open>strides_t\<close> (reference family) and \<open>data_p\<close>, \<open>sizes_p\<close>,
  \<open>strides_p\<close> (packed family); \<open>N_t\<close> and \<open>N_p\<close> hold the template argument \<open>N\<close>.
\<close>

record TensorAccessor =
  N_t :: size_t
  data_t :: data_ptr
  sizes_t :: i64_ptr
  strides_t :: i64_ptr

record PackedTensorAccessor =
  N_p :: size_t
  data_p :: data_ptr
  sizes_p :: "int64_t list"
  strides_p :: "int64_t list"

text \<open>
  The memory: data buffers holding elements of type \<open>T\<close>, \<open>int64_t\<close> arrays owned by
  the tensor, and packed accessor objects (they need an address because indexing one
  returns pointers into it).
\<close>

record 'a memory =
  buffers :: "addr \<rightharpoonup> 'a list"
  arrays :: "addr \<rightharpoonup> int64_t list"
  packed :: "addr \<rightharpoonup> PackedTensorAccessor"

text \<open>
  Reading element \<open>k\<close> of a C array. Nothing in the source checks a bound; a read
  outside the array is undefined behaviour, which the model reports as \<open>None\<close>.
\<close>

definition array_read :: "'b list \<Rightarrow> int \<Rightarrow> 'b option" where
  "array_read xs k = (if 0 \<le> k \<and> k < int (length xs) then Some (xs ! nat k) else None)"

fun i64_object_contents :: "'a memory \<Rightarrow> i64_object \<Rightarrow> int64_t list option" where
  "i64_object_contents mem (Array b) = arrays mem b"
| "i64_object_contents mem (Sizes b) = map_option sizes_p (packed mem b)"
| "i64_object_contents mem (Strides b) = map_option strides_p (packed mem b)"

fun load_i64 :: "'a memory \<Rightarrow> i64_ptr \<Rightarrow> int64_t option" where
  "load_i64 mem (I64Ptr obj k) =
     (case i64_object_contents mem obj of None \<Rightarrow> None | Some xs \<Rightarrow> array_read xs k)"

fun load_data :: "'a memory \<Rightarrow> data_ptr \<Rightarrow> 'a option" where
  "load_data mem (DataPtr b k) =
     (case buffers mem b of None \<Rightarrow> None | Some xs \<Rightarrow> array_read xs k)"

text \<open>
  Assignment through a \<open>T &\<close>: the element at the address is replaced, everything
  else stays. Outside a live buffer the write is undefined (\<open>None\<close>).
\<close>

fun store_data :: "'a memory \<Rightarrow> data_ptr \<Rightarrow> 'a \<Rightarrow> 'a memory option" where
  "store_data mem (DataPtr b k) v =
     (case buffers mem b of
        None \<Rightarrow> None
      | Some xs \<Rightarrow>
          if 0 \<le> k \<and> k < int (length xs)
          then Some (mem\<lparr>buffers := (buffers mem)(b \<mapsto> xs[nat k := v])\<rparr>)
          else None)"

subsection \<open>TensorAccessorBase\<close>

text \<open>
  \<^verbatim>\<open>int64_t stride(int64_t i) const { return strides_[i]; }\<close>
  \<^verbatim>\<open>int64_t size(int64_t i) const { return sizes_[i]; }\<close>
  \<^verbatim>\<open>const T *data() const { return data_; }\<close>
\<close>

definition TensorAccessorBase_stride :: "'a memory \<Rightarrow> TensorAccessor \<Rightarrow> int64_t \<Rightarrow> int64_t option" where
  "TensorAccessorBase_stride mem A i = load_i64 mem (i64_ptr_add (strides_t A) (sint i))"

definition TensorAccessorBase_size :: "'a memory \<Rightarrow> TensorAccessor \<Rightarrow> int64_t \<Rightarrow> int64_t option" where
  "TensorAccessorBase_size mem A i = load_i64 mem (i64_ptr_add (sizes_t A) (sint i))"

definition TensorAccessorBase_data :: "TensorAccessor \<Rightarrow> data_ptr" where
  "TensorAccessorBase_data A = data_t A"

text \<open>
  The other overload, \<^verbatim>\<open>T *data() { return data_; }\<close>, is not \<open>const\<close>; like the
  subscript operators below it is modelled in state-passing style, returning its
  result and the receiver after the call.
\<close>

definition TensorAccessorBase_data_nonconst :: "TensorAccessor \<Rightarrow> data_ptr \<times> TensorAccessor" where
  "TensorAccessorBase_data_nonconst A = (data_t A, A)"

subsection \<open>TensorAccessor: operator[]\<close>

text \<open>
  The subscript operators are not \<open>const\<close> (lines 75, 91, 131, 151), so they are
  modelled in state-passing style: each returns its result paired with the receiver
  object \<open>*this\<close> as it is after the call. Where a \<open>const\<close> overload exists (lines 79,
  137, 154) its body is the same.

  Primary template (every \<open>N\<close> other than 1):
  \<^verbatim>\<open>return TensorAccessor<T,N-1>(this->data_ + this->strides_[0]*i,this->sizes_+1,this->strides_+1);\<close>
\<close>

definition TensorAccessor_index ::
  "'a memory \<Rightarrow> TensorAccessor \<Rightarrow> int64_t \<Rightarrow> (TensorAccessor \<times> TensorAccessor) option" where
  "TensorAccessor_index mem A i =
     (case load_i64 mem (strides_t A) of
        None \<Rightarrow> None
      | Some s \<Rightarrow>
          Some (\<lparr>N_t = N_t A - 1,
                 data_t = data_ptr_add (data_t A) (sint (s * i)),
                 sizes_t = i64_ptr_add (sizes_t A) 1,
                 strides_t = i64_ptr_add (strides_t A) 1\<rparr>, A))"

text \<open>
  Specialisation for \<open>N = 1\<close>:
  \<^verbatim>\<open>return this->data_[this->strides_[0]*i];\<close>
  The returned \<open>T &\<close> is represented by the address of the element.
\<close>

definition TensorAccessor1_index ::
  "'a memory \<Rightarrow> TensorAccessor \<Rightarrow> int64_t \<Rightarrow> (data_ptr \<times> TensorAccessor) option" where
  "TensorAccessor1_index mem A i =
     (case load_i64 mem (strides_t A) of
        None \<Rightarrow> None
      | Some s \<Rightarrow> Some (data_ptr_add (data_t A) (sint (s * i)), A))"

text \<open>
  What \<open>A[i]\<close> is depends on which template the compiler selects for \<open>N\<close>: an
  element reference for the specialisation, an accessor otherwise.
\<close>

datatype subscript = Element data_ptr | Accessor TensorAccessor

definition TensorAccessor_subscript ::
  "'a memory \<Rightarrow> TensorAccessor \<Rightarrow> int64_t \<Rightarrow> (subscript \<times> TensorAccessor) option" where
  "TensorAccessor_subscript mem A i =
     (if N_t A = 1
      then map_option (\<lambda>(r, this). (Element r, this)) (TensorAccessor1_index mem A i)
      else map_option (\<lambda>(B, this). (Accessor B, this)) (TensorAccessor_index mem A i))"

subsection \<open>PackedTensorAccessorBase\<close>

text \<open>
  \<open>std::copy(first, first + n, out)\<close> reads \<open>n\<close> consecutive elements starting at
  \<open>first\<close>; the list returned is what ends up in the destination array.
\<close>

fun std_copy :: "'a memory \<Rightarrow> i64_ptr \<Rightarrow> nat \<Rightarrow> int64_t list option" where
  "std_copy mem first 0 = Some []"
| "std_copy mem first (Suc n) =
     (case load_i64 mem first of
        None \<Rightarrow> None
      | Some v \<Rightarrow> map_option ((#) v) (std_copy mem (i64_ptr_add first 1) n))"

text \<open>
  \<^verbatim>\<open>PackedTensorAccessorBase(PtrType data_, const int64_t * sizes_, const int64_t * strides_)\<close>
  \<^verbatim>\<open>: data_(data_) { std::copy(sizes_, sizes_ + N, std::begin(this->sizes_));\<close>
  \<^verbatim>\<open>                std::copy(strides_, strides_ + N, std::begin(this->strides_)); }\<close>
\<close>

definition PackedTensorAccessorBase ::
  "'a memory \<Rightarrow> size_t \<Rightarrow> data_ptr \<Rightarrow> i64_ptr \<Rightarrow> i64_ptr \<Rightarrow> PackedTensorAccessor option" where
  "PackedTensorAccessorBase mem n data sizes strides =
     (case std_copy mem sizes (unat n) of
        None \<Rightarrow> None
      | Some szs \<Rightarrow>
          (case std_copy mem strides (unat n) of
             None \<Rightarrow> None
           | Some strs \<Rightarrow>
               Some \<lparr>N_p = n, data_p = data, sizes_p = szs, strides_p = strs\<rparr>))"

text \<open>
  \<^verbatim>\<open>int64_t stride(int64_t i) const { return strides_[i]; }\<close>
  \<^verbatim>\<open>int64_t size(int64_t i) const { return sizes_[i]; }\<close>
\<close>

definition PackedTensorAccessorBase_stride :: "PackedTensorAccessor \<Rightarrow> int64_t \<Rightarrow> int64_t option" where
  "PackedTensorAccessorBase_stride P i = array_read (strides_p P) (sint i)"

definition PackedTensorAccessorBase_size :: "PackedTensorAccessor \<Rightarrow> int64_t \<Rightarrow> int64_t option" where
  "PackedTensorAccessorBase_size P i = array_read (sizes_p P) (sint i)"

text \<open>
  The members \<open>int64_t sizes_[N]\<close> and \<open>int64_t strides_[N]\<close> have \<open>N\<close> elements by
  their type.
\<close>

definition packed_wf :: "PackedTensorAccessor \<Rightarrow> bool" where
  "packed_wf P \<longleftrightarrow> length (sizes_p P) = unat (N_p P) \<and> length (strides_p P) = unat (N_p P)"

text \<open>
  The class declares no copy constructor; the implicit one copies member by member,
  the arrays element by element.
\<close>

definition PackedTensorAccessor_copy :: "PackedTensorAccessor \<Rightarrow> PackedTensorAccessor" where
  "PackedTensorAccessor_copy P =
     \<lparr>N_p = N_p P, data_p = data_p P,
      sizes_p = map (\<lambda>k. sizes_p P ! k) [0..<length (sizes_p P)],
      strides_p = map (\<lambda>k. strides_p P ! k) [0..<length (strides_p P)]\<rparr>"

subsection \<open>PackedTensorAccessor: operator[]\<close>

text \<open>
  Primary template; \<open>this\<close> is the address of the receiver and \<open>P\<close> the object there.
  \<^verbatim>\<open>int64_t* new_sizes = this->sizes_+1;\<close>
  \<^verbatim>\<open>int64_t* new_strides = this->strides_+1;\<close>
  \<^verbatim>\<open>return TensorAccessor<T,N-1>(this->data_ + this->strides_[0]*i, new_sizes, new_strides);\<close>
\<close>

definition PackedTensorAccessor_index ::
  "addr \<Rightarrow> PackedTensorAccessor \<Rightarrow> int64_t \<Rightarrow> (TensorAccessor \<times> PackedTensorAccessor) option" where
  "PackedTensorAccessor_index this P i =
     (let new_sizes = i64_ptr_add (I64Ptr (Sizes this) 0) 1;
          new_strides = i64_ptr_add (I64Ptr (Strides this) 0) 1
      in case array_read (strides_p P) 0 of
           None \<Rightarrow> None
         | Some s \<Rightarrow>
             Some (\<lparr>N_t = N_p P - 1,
                    data_t = data_ptr_add (data_p P) (sint (s * i)),
                    sizes_t = new_sizes,
                    strides_t = new_strides\<rparr>, P))"

text \<open>
  Specialisation for \<open>N = 1\<close>:
  \<^verbatim>\<open>return this->data_[this->strides_[0]*i];\<close>
\<close>

definition PackedTensorAccessor1_index ::
  "addr \<Rightarrow> PackedTensorAccessor \<Rightarrow> int64_t \<Rightarrow> (data_ptr \<times> PackedTensorAccessor) option" where
  "PackedTensorAccessor1_index this P i =
     (case array_read (strides_p P) 0 of
        None \<Rightarrow> None
      | Some s \<Rightarrow> Some (data_ptr_add (data_p P) (sint (s * i)), P))"

definition PackedTensorAccessor_subscript ::
  "addr \<Rightarrow> PackedTensorAccessor \<Rightarrow> int64_t \<Rightarrow> (subscript \<times> PackedTensorAccessor) option" where
  "PackedTensorAccessor_subscript this P i =
     (if N_p P = 1
      then map_option (\<lambda>(r, this'). (Element r, this')) (PackedTensorAccessor1_index this P i)
      else map_option (\<lambda>(B, this'). (Accessor B, this')) (PackedTensorAccessor_index this P i))"

subsection \<open>Chained indexing\<close>

text \<open>
  \<open>A[i\<^sub>0][i\<^sub>1]...[i\<^sub>m]\<close>: each subscript is applied to the accessor the previous one
  returned. The chain resolves to an element address when its last subscript, and
  only that one, returns an element; otherwise (an accessor is left over, an element
  is subscripted again, or a step is undefined) there is none.
\<close>

fun TensorAccessor_resolve :: "'a memory \<Rightarrow> TensorAccessor \<Rightarrow> int64_t list \<Rightarrow> data_ptr option" where
  "TensorAccessor_resolve mem A [] = None"
| "TensorAccessor_resolve mem A (i # is) =
     (case TensorAccessor_subscript mem A i of
        None \<Rightarrow> None
      | Some (Element r, _) \<Rightarrow> (if is = [] then Some r else None)
      | Some (Accessor B, _) \<Rightarrow> TensorAccessor_resolve mem B is)"

text \<open>The same for a packed accessor stored at address \<open>this\<close>.\<close>

fun PackedTensorAccessor_resolve :: "'a memory \<Rightarrow> addr \<Rightarrow> int64_t list \<Rightarrow> data_ptr option" where
  "PackedTensorAccessor_resolve mem this [] = None"
| "PackedTensorAccessor_resolve mem this (i # is) =
     (case packed mem this of
        None \<Rightarrow> None
      | Some P \<Rightarrow>
          (case PackedTensorAccessor_subscript this P i of
             None \<Rightarrow> None
           | Some (Element r, _) \<Rightarrow> (if is = [] then Some r else None)
           | Some (Accessor B, _) \<Rightarrow> TensorAccessor_resolve mem B is))"

subsection \<open>Notions used to state the properties\<close>

text \<open>
  A valid \<open>N\<close>-dimensional accessor: \<open>N \<ge> 1\<close>, every dimension index fits the
  \<open>int64_t\<close> argument of \<open>size\<close> and \<open>stride\<close>, and the sizes and strides pointers
  each point to \<open>N\<close> readable elements.
\<close>

definition valid_accessor :: "'a memory \<Rightarrow> TensorAccessor \<Rightarrow> bool" where
  "valid_accessor mem A \<longleftrightarrow>
     1 \<le> N_t A \<and> N_t A \<le> 0x7FFFFFFFFFFFFFFF
     \<and> list_all (\<lambda>k. load_i64 mem (i64_ptr_add (sizes_t A) (int k)) \<noteq> None
                    \<and> load_i64 mem (i64_ptr_add (strides_t A) (int k)) \<noteq> None)
          [0..<unat (N_t A)]"

text \<open>
  The offset \<open>s\<^sub>0 * i\<^sub>0 + s\<^sub>1 * i\<^sub>1 + ...\<close> of a chain of subscripts: each product is the
  \<open>int64_t\<close> product the code computes, each sum a pointer addition.
\<close>

definition linear_offset :: "int64_t list \<Rightarrow> int64_t list \<Rightarrow> int" where
  "linear_offset ss is = sum_list (map (\<lambda>(s, i). sint (s * i)) (zip ss is))"

text \<open>The address a subscript result designates: the element, or the accessor's data pointer.\<close>

fun subscript_data :: "subscript \<Rightarrow> data_ptr" where
  "subscript_data (Element r) = r"
| "subscript_data (Accessor B) = data_t B"

subsection \<open>A running example\<close>

text \<open>
  A buffer of six integers at address 0, viewed as a 2 x 3 matrix in row-major order:
  the sizes array \<open>[2, 3]\<close> is at address 1, the strides array \<open>[3, 1]\<close> at address 2.
\<close>

definition example_memory :: "int memory" where
  "example_memory =
     \<lparr>buffers = [0 \<mapsto> [10, 11, 12, 13, 14, 15]],
      arrays = [1 \<mapsto> [2, 3], 2 \<mapsto> [3, 1]],
      packed = Map.empty\<rparr>"

definition example_accessor :: TensorAccessor where
  "example_accessor =
     \<lparr>N_t = 2, data_t = DataPtr 0 0, sizes_t = I64Ptr (Array 1) 0, strides_t = I64Ptr (Array 2) 0\<rparr>"

text \<open>
  The packed accessor built from the same arrays, and the memory in which it is stored
  at address 7.
\<close>

definition example_packed :: PackedTensorAccessor where
  "example_packed = \<lparr>N_p = 2, data_p = DataPtr 0 0, sizes_p = [2, 3], strides_p = [3, 1]\<rparr>"

definition example_memory_packed :: "int memory" where
  "example_memory_packed = example_memory\<lparr>packed := [7 \<mapsto> example_packed]\<rparr>"

text \<open>
  The row \<open>example_accessor[1]\<close>, and a packed accessor of dimension one over the whole
  buffer.
\<close>

definition example_row :: TensorAccessor where
  "example_row = \<lparr>N_t = 1, data_t = DataPtr 0 3, sizes_t = I64Ptr (Array 1) 1, strides_t = I64Ptr (Array 2) 1\<rparr>"

definition example_packed1 :: PackedTensorAccessor where
  "example_packed1 = \<lparr>N_p = 1, data_p = DataPtr 0 0, sizes_p = [6], strides_p = [1]\<rparr>"

text \<open>
  A three-dimensional view of the same buffer (sizes \<open>[1, 2, 3]\<close>, strides \<open>[6, 3, 1]\<close>).
\<close>

definition example_accessor3 :: TensorAccessor where
  "example_accessor3 =
     \<lparr>N_t = 3, data_t = DataPtr 0 0, sizes_t = I64Ptr (Array 3) 0, strides_t = I64Ptr (Array 4) 0\<rparr>"

definition example_memory3 :: "int memory" where
  "example_memory3 =
     \<lparr>buffers = [0 \<mapsto> [10, 11, 12, 13, 14, 15]],
      arrays = [3 \<mapsto> [1, 2, 3], 4 \<mapsto> [6, 3, 1]],
      packed = Map.empty\<rparr>"

text \<open>
  Later states of the memory: one in which the tensor's sizes and strides arrays are
  gone and a copy of the packed accessor sits at address 8; one without data buffers;
  one in which all sizes are different (\<open>[7, 9]\<close>) and the strides are the same.
\<close>

definition example_memory_later :: "int memory" where
  "example_memory_later =
     \<lparr>buffers = [0 \<mapsto> [10, 11, 12, 13, 14, 15]], arrays = Map.empty, packed = [8 \<mapsto> example_packed]\<rparr>"

definition example_memory_other :: "int memory" where
  "example_memory_other = example_memory\<lparr>buffers := Map.empty\<rparr>"

definition example_memory_resized :: "int memory" where
  "example_memory_resized =
     \<lparr>buffers = [0 \<mapsto> [10, 11, 12, 13, 14, 15]],
      arrays = [5 \<mapsto> [7, 9], 2 \<mapsto> [3, 1]],
      packed = [9 \<mapsto> example_packed\<lparr>sizes_p := [7, 9]\<rparr>]\<rparr>"

definition example_accessor_resized :: TensorAccessor where
  "example_accessor_resized = example_accessor\<lparr>sizes_t := I64Ptr (Array 5) 0\<rparr>"

section \<open>Properties\<close>

subsection \<open>Basic facts about the memory model\<close>

lemma i64_ptr_add_add: "i64_ptr_add (i64_ptr_add p m) n = i64_ptr_add p (m + n)"
  by (cases p) simp

lemma i64_ptr_add_0: "i64_ptr_add p 0 = p"
  by (cases p) simp

lemma data_ptr_add_add: "data_ptr_add (data_ptr_add p m) n = data_ptr_add p (m + n)"
  by (cases p) simp

lemma load_store_same:
  "store_data mem r v = Some mem' \<Longrightarrow> load_data mem' r = Some v"
  by (cases r) (auto simp: array_read_def split: option.splits if_splits)

lemma load_store_other:
  "store_data mem r v = Some mem' \<Longrightarrow> r' \<noteq> r \<Longrightarrow> load_data mem' r' = load_data mem r'"
  by (cases r; cases r') (auto simp: array_read_def split: option.splits if_splits)

lemma store_data_frame:
  "store_data mem r v = Some mem' \<Longrightarrow> arrays mem' = arrays mem \<and> packed mem' = packed mem"
  by (cases r) (auto split: option.splits if_splits)

lemma store_data_defined:
  "(\<exists>mem'. store_data mem r v = Some mem') \<longleftrightarrow> (\<exists>x. load_data mem r = Some x)"
  by (cases r) (auto simp: array_read_def split: option.splits if_splits)

lemma valid_accessor_readable:
  assumes "valid_accessor mem A" and "k < unat (N_t A)"
  shows "\<exists>v w. load_i64 mem (i64_ptr_add (sizes_t A) (int k)) = Some v
             \<and> load_i64 mem (i64_ptr_add (strides_t A) (int k)) = Some w"
  using assms by (auto simp: valid_accessor_def list_all_iff)

lemma sint_succ:
  fixes k :: int64_t
  assumes "0 \<le> sint k" and "sint k < 2 ^ 63 - 1"
  shows "sint (k + 1) = sint k + 1"
proof -
  have "sint (k + 1) = signed_take_bit 63 (sint k + 1)"
    by (simp add: sint_word_ariths)
  also have "\<dots> = sint k + 1"
    using assms by (intro signed_take_bit_int_eq_self) auto
  finally show ?thesis .
qed

lemma unat_pred:
  fixes n :: size_t
  assumes "unat n = Suc m"
  shows "unat (n - 1) = m"
proof -
  from assms have "n \<noteq> 0" by auto
  then have "unat (n - 1) = unat n - 1"
    by (rule unat_minus_one)
  with assms show ?thesis by simp
qed

lemma unat_eq_1_iff:
  fixes n :: size_t
  shows "unat n = Suc 0 \<longleftrightarrow> n = 1"
  by (simp add: word_unat_eq_iff)

lemma sint_mult_no_overflow:
  fixes s i :: int64_t
  assumes "- (2 ^ 63) \<le> sint s * sint i" and "sint s * sint i < 2 ^ 63"
  shows "sint (s * i) = sint s * sint i"
proof -
  have "sint (s * i) = signed_take_bit 63 (sint s * sint i)"
    by (simp add: sint_word_ariths)
  also have "\<dots> = sint s * sint i"
    using assms by (intro signed_take_bit_int_eq_self) auto
  finally show ?thesis .
qed

lemma linear_offset_no_overflow:
  assumes "list_all (\<lambda>(s, i). - (2 ^ 63) \<le> sint s * sint i \<and> sint s * sint i < 2 ^ 63) (zip ss is)"
  shows "linear_offset ss is = sum_list (map (\<lambda>(s, i). sint s * sint i) (zip ss is))"
proof -
  have "map (\<lambda>(s, i). sint (s * i)) (zip ss is) = map (\<lambda>(s, i). sint s * sint i) (zip ss is)"
  proof (rule map_cong [OF refl])
    fix x assume "x \<in> set (zip ss is)"
    with assms show "(case x of (s, i) \<Rightarrow> sint (s * i)) = (case x of (s, i) \<Rightarrow> sint s * sint i)"
      by (cases x) (auto simp: list_all_iff sint_mult_no_overflow)
  qed
  then show ?thesis
    unfolding linear_offset_def by (simp only:)
qed

subsection \<open>Facts about \<open>std_copy\<close> and the packed constructor\<close>

lemma std_copy_length: "std_copy mem p n = Some xs \<Longrightarrow> length xs = n"
  by (induction n arbitrary: p xs) (auto split: option.splits)

lemma std_copy_nth:
  "std_copy mem p n = Some xs \<Longrightarrow> j < n \<Longrightarrow> load_i64 mem (i64_ptr_add p (int j)) = Some (xs ! j)"
proof (induction n arbitrary: p xs j)
  case 0
  then show ?case by simp
next
  case (Suc n)
  from Suc.prems(1) obtain v ys where v: "load_i64 mem p = Some v"
    and ys: "std_copy mem (i64_ptr_add p 1) n = Some ys" and xs: "xs = v # ys"
    by (auto split: option.splits)
  show ?case
  proof (cases j)
    case 0
    with v xs show ?thesis by (simp add: i64_ptr_add_0)
  next
    case (Suc j')
    with Suc.prems(2) have "j' < n" by simp
    from Suc.IH [OF ys this] Suc xs show ?thesis
      by (simp add: i64_ptr_add_add add.commute)
  qed
qed

lemma std_copy_defined:
  "(\<And>j. j < n \<Longrightarrow> load_i64 mem (i64_ptr_add p (int j)) \<noteq> None) \<Longrightarrow> std_copy mem p n \<noteq> None"
proof (induction n arbitrary: p)
  case 0
  then show ?case by simp
next
  case (Suc n)
  from Suc.prems [of 0] obtain v where v: "load_i64 mem p = Some v"
    by (auto simp: i64_ptr_add_0)
  have "std_copy mem (i64_ptr_add p 1) n \<noteq> None"
  proof (rule Suc.IH)
    fix j assume "j < n"
    then have "load_i64 mem (i64_ptr_add p (int (Suc j))) \<noteq> None"
      by (intro Suc.prems) simp
    then show "load_i64 mem (i64_ptr_add (i64_ptr_add p 1) (int j)) \<noteq> None"
      by (simp add: i64_ptr_add_add add.commute)
  qed
  with v show ?case by auto
qed

lemma std_copy_complete:
  "length xs = n \<Longrightarrow> (\<And>j. j < n \<Longrightarrow> load_i64 mem (i64_ptr_add p (int j)) = Some (xs ! j))
     \<Longrightarrow> std_copy mem p n = Some xs"
proof (induction n arbitrary: p xs)
  case 0
  then show ?case by simp
next
  case (Suc n)
  from Suc.prems(1) obtain v ys where xs: "xs = v # ys" and ys: "length ys = n"
    by (cases xs) auto
  from Suc.prems(2) [of 0] xs have v: "load_i64 mem p = Some v"
    by (simp add: i64_ptr_add_0)
  have "std_copy mem (i64_ptr_add p 1) n = Some ys"
  proof (rule Suc.IH [OF ys])
    fix j assume "j < n"
    then have "load_i64 mem (i64_ptr_add p (int (Suc j))) = Some (xs ! Suc j)"
      by (intro Suc.prems(2)) simp
    then show "load_i64 mem (i64_ptr_add (i64_ptr_add p 1) (int j)) = Some (ys ! j)"
      by (simp add: i64_ptr_add_add add.commute xs)
  qed
  with v xs show ?case by simp
qed

lemma std_copy_embedded:
  assumes "packed mem this = Some P"
  shows "k + n \<le> length (strides_p P) \<Longrightarrow>
     std_copy mem (I64Ptr (Strides this) (int k)) n = Some (take n (drop k (strides_p P)))"
proof (induction n arbitrary: k)
  case 0
  then show ?case by simp
next
  case (Suc n)
  from Suc.prems have k: "k < length (strides_p P)" by simp
  with assms have l: "load_i64 mem (I64Ptr (Strides this) (int k)) = Some (strides_p P ! k)"
    by (simp add: array_read_def)
  from Suc.prems have "Suc k + n \<le> length (strides_p P)" by simp
  from Suc.IH [OF this] have "std_copy mem (I64Ptr (Strides this) (int k + 1)) n
      = Some (take n (drop (Suc k) (strides_p P)))"
    by (simp add: add.commute)
  with l k show ?case
    by (simp add: Cons_nth_drop_Suc [symmetric])
qed

lemma PackedTensorAccessorBase_wf:
  "PackedTensorAccessorBase mem n d sp stp = Some P \<Longrightarrow> packed_wf P \<and> N_p P = n \<and> data_p P = d"
  by (auto simp: PackedTensorAccessorBase_def packed_wf_def std_copy_length split: option.splits)

lemma PackedTensorAccessorBase_reads:
  assumes "PackedTensorAccessorBase mem n d sp stp = Some P"
    and "0 \<le> k" and "k < uint n"
  shows "array_read (sizes_p P) k = load_i64 mem (i64_ptr_add sp k)"
    and "array_read (strides_p P) k = load_i64 mem (i64_ptr_add stp k)"
    and "array_read (sizes_p P) k \<noteq> None"
    and "array_read (strides_p P) k \<noteq> None"
proof -
  from assms(1) obtain szs strs where szs: "std_copy mem sp (unat n) = Some szs"
    and strs: "std_copy mem stp (unat n) = Some strs"
    and P: "sizes_p P = szs" "strides_p P = strs"
    by (auto simp: PackedTensorAccessorBase_def split: option.splits)
  have "int (unat n) = uint n" by simp
  with assms(2,3) have j: "nat k < unat n" "int (nat k) = k" by linarith+
  from std_copy_nth [OF szs j(1)] std_copy_length [OF szs] j assms(2,3) P
  show "array_read (sizes_p P) k = load_i64 mem (i64_ptr_add sp k)"
    "array_read (sizes_p P) k \<noteq> None"
    by (simp_all add: array_read_def)
  from std_copy_nth [OF strs j(1)] std_copy_length [OF strs] j assms(2,3) P
  show "array_read (strides_p P) k = load_i64 mem (i64_ptr_add stp k)"
     "array_read (strides_p P) k \<noteq> None"
    by (simp_all add: array_read_def)
qed

lemma PackedTensorAccessor_copy_eq: "PackedTensorAccessor_copy P = P"
  by (simp add: PackedTensorAccessor_copy_def map_nth)

subsection \<open>Chains of subscripts\<close>

lemma TensorAccessor_resolve_offset:
  assumes "std_copy mem (strides_t A) (length is) = Some ss"
    and "unat (N_t A) = length is" and "is \<noteq> []"
  shows "TensorAccessor_resolve mem A is = Some (data_ptr_add (data_t A) (linear_offset ss is))"
  using assms
proof (induction "is" arbitrary: A ss)
  case Nil
  then show ?case by simp
next
  case (Cons i js)
  from Cons.prems(1) obtain s ss' where s: "load_i64 mem (strides_t A) = Some s"
    and ss': "std_copy mem (i64_ptr_add (strides_t A) 1) (length js) = Some ss'"
    and ss: "ss = s # ss'"
    by (auto split: option.splits)
  show ?case
  proof (cases "js = []")
    case True
    with Cons.prems(2) have "N_t A = 1"
      by (simp add: unat_eq_1_iff)
    with s True ss ss' show ?thesis
      by (simp add: TensorAccessor_subscript_def TensorAccessor1_index_def linear_offset_def)
  next
    case False
    then obtain m where m: "length js = Suc m"
      by (cases js) auto
    with Cons.prems(2) have N: "N_t A \<noteq> 1"
      by (auto simp: unat_eq_1_iff [symmetric])
    define B where "B = \<lparr>N_t = N_t A - 1,
                 data_t = data_ptr_add (data_t A) (sint (s * i)),
                 sizes_t = i64_ptr_add (sizes_t A) 1,
                 strides_t = i64_ptr_add (strides_t A) 1\<rparr>"
    from N s have step: "TensorAccessor_subscript mem A i = Some (Accessor B, A)"
      by (simp add: TensorAccessor_subscript_def TensorAccessor_index_def B_def)
    from Cons.prems(2) have "unat (N_t B) = length js"
      by (simp add: B_def unat_pred)
    moreover from ss' have "std_copy mem (strides_t B) (length js) = Some ss'"
      by (simp add: B_def)
    ultimately have "TensorAccessor_resolve mem B js
        = Some (data_ptr_add (data_t B) (linear_offset ss' js))"
      using False by (intro Cons.IH)
    with step ss show ?thesis
      by (simp add: B_def data_ptr_add_add linear_offset_def)
  qed
qed

lemma PackedTensorAccessor_resolve_offset:
  assumes "packed mem this = Some P" and "packed_wf P"
    and "unat (N_p P) = length is" and "is \<noteq> []"
  shows "PackedTensorAccessor_resolve mem this is
           = Some (data_ptr_add (data_p P) (linear_offset (strides_p P) is))"
proof -
  from assms(4) obtain i js where "is": "is = i # js"
    by (cases "is") auto
  from assms(2,3) "is" have len: "length (strides_p P) = Suc (length js)"
    by (simp add: packed_wf_def)
  then obtain s ss' where ss: "strides_p P = s # ss'" and ss': "length ss' = length js"
    by (cases "strides_p P") auto
  then have s: "array_read (strides_p P) 0 = Some s"
    by (simp add: array_read_def)
  show ?thesis
  proof (cases "js = []")
    case True
    with assms(3) "is" have "N_p P = 1"
      by (simp add: unat_eq_1_iff)
    with s True ss ss' assms(1) "is" show ?thesis
      by (simp add: PackedTensorAccessor_subscript_def PackedTensorAccessor1_index_def
          linear_offset_def)
  next
    case False
    then obtain m where m: "length js = Suc m"
      by (cases js) auto
    with assms(3) "is" have N: "N_p P \<noteq> 1"
      by (auto simp: unat_eq_1_iff [symmetric])
    define B where "B = \<lparr>N_t = N_p P - 1,
                    data_t = data_ptr_add (data_p P) (sint (s * i)),
                    sizes_t = I64Ptr (Sizes this) 1,
                    strides_t = I64Ptr (Strides this) 1\<rparr>"
    from N s have step: "PackedTensorAccessor_subscript this P i = Some (Accessor B, P)"
      by (simp add: PackedTensorAccessor_subscript_def PackedTensorAccessor_index_def B_def)
    from assms(3) "is" have nB: "unat (N_t B) = length js"
      by (simp add: B_def unat_pred)
    from len have "1 + length js \<le> length (strides_p P)" by simp
    from std_copy_embedded [OF assms(1) this] ss ss'
    have "std_copy mem (strides_t B) (length js) = Some ss'"
      by (simp add: B_def)
    from TensorAccessor_resolve_offset [OF this nB False]
    have "TensorAccessor_resolve mem B js = Some (data_ptr_add (data_t B) (linear_offset ss' js))" .
    with step ss assms(1) "is" show ?thesis
      by (simp add: B_def data_ptr_add_add linear_offset_def)
  qed
qed

lemma TensorAccessor_resolve_cong:
  assumes "N_t A = N_t A'" and "1 \<le> N_t A" and "data_t A = data_t A'"
    and "\<forall>k<unat (N_t A). load_i64 mem (i64_ptr_add (strides_t A) (int k))
                           = load_i64 mem' (i64_ptr_add (strides_t A') (int k))"
  shows "TensorAccessor_resolve mem A is = TensorAccessor_resolve mem' A' is"
  using assms
proof (induction "is" arbitrary: A A')
  case Nil
  then show ?case by simp
next
  case (Cons i js)
  from Cons.prems(2) have pos: "0 < unat (N_t A)"
    by (simp add: word_le_nat_alt)
  with Cons.prems(4) have l0: "load_i64 mem (strides_t A) = load_i64 mem' (strides_t A')"
    by (auto simp: i64_ptr_add_0 dest: spec [of _ 0])
  show ?case
  proof (cases "load_i64 mem (strides_t A)")
    case None
    with l0 Cons.prems(1) show ?thesis
      by (simp add: TensorAccessor_subscript_def TensorAccessor_index_def TensorAccessor1_index_def)
  next
    case (Some s)
    show ?thesis
    proof (cases "N_t A = 1")
      case True
      with Some l0 Cons.prems(1,3) show ?thesis
        by (simp add: TensorAccessor_subscript_def TensorAccessor1_index_def)
    next
      case False
      define B where "B = \<lparr>N_t = N_t A - 1,
                 data_t = data_ptr_add (data_t A) (sint (s * i)),
                 sizes_t = i64_ptr_add (sizes_t A) 1,
                 strides_t = i64_ptr_add (strides_t A) 1\<rparr>"
      define B' where "B' = \<lparr>N_t = N_t A' - 1,
                 data_t = data_ptr_add (data_t A') (sint (s * i)),
                 sizes_t = i64_ptr_add (sizes_t A') 1,
                 strides_t = i64_ptr_add (strides_t A') 1\<rparr>"
      from False Some have step: "TensorAccessor_subscript mem A i = Some (Accessor B, A)"
        by (simp add: TensorAccessor_subscript_def TensorAccessor_index_def B_def)
      from False Some l0 Cons.prems(1)
      have step': "TensorAccessor_subscript mem' A' i = Some (Accessor B', A')"
        by (simp add: TensorAccessor_subscript_def TensorAccessor_index_def B'_def)
      from pos obtain m where m: "unat (N_t A) = Suc m"
        by (cases "unat (N_t A)") auto
      with False have "m \<noteq> 0"
        using unat_eq_1_iff [of "N_t A"] by auto
      from m have nB: "unat (N_t B) = m"
        by (simp add: B_def unat_pred)
      with \<open>m \<noteq> 0\<close> have "1 \<le> N_t B"
        by (simp add: word_le_nat_alt)
      moreover have "N_t B = N_t B'" "data_t B = data_t B'"
        using Cons.prems(1,3) by (simp_all add: B_def B'_def)
      moreover have "\<forall>k<unat (N_t B). load_i64 mem (i64_ptr_add (strides_t B) (int k))
                           = load_i64 mem' (i64_ptr_add (strides_t B') (int k))"
      proof (intro allI impI)
        fix k assume "k < unat (N_t B)"
        with nB m have "Suc k < unat (N_t A)" by simp
        with Cons.prems(4) have "load_i64 mem (i64_ptr_add (strides_t A) (int (Suc k)))
                           = load_i64 mem' (i64_ptr_add (strides_t A') (int (Suc k)))"
          by blast
        then show "load_i64 mem (i64_ptr_add (strides_t B) (int k))
                           = load_i64 mem' (i64_ptr_add (strides_t B') (int k))"
          by (simp add: B_def B'_def i64_ptr_add_add add.commute)
      qed
      ultimately have "TensorAccessor_resolve mem B js = TensorAccessor_resolve mem' B' js"
        by (intro Cons.IH)
      with step step' show ?thesis by simp
    qed
  qed
qed

lemma PackedTensorAccessor_resolve_cong:
  assumes "packed mem this = Some P" and "packed mem' this' = Some P'"
    and "N_p P = N_p P'" and "1 \<le> N_p P" and "data_p P = data_p P'"
    and "strides_p P = strides_p P'"
  shows "PackedTensorAccessor_resolve mem this is = PackedTensorAccessor_resolve mem' this' is"
proof (cases "is")
  case Nil
  then show ?thesis by simp
next
  case (Cons i js)
  show ?thesis
  proof (cases "array_read (strides_p P) 0")
    case None
    with assms Cons show ?thesis
      by (simp add: PackedTensorAccessor_subscript_def PackedTensorAccessor_index_def
          PackedTensorAccessor1_index_def)
  next
    case (Some s)
    show ?thesis
    proof (cases "N_p P = 1")
      case True
      with Some assms Cons show ?thesis
        by (simp add: PackedTensorAccessor_subscript_def PackedTensorAccessor1_index_def)
    next
      case False
      define B where "B = \<lparr>N_t = N_p P - 1,
                    data_t = data_ptr_add (data_p P) (sint (s * i)),
                    sizes_t = I64Ptr (Sizes this) 1,
                    strides_t = I64Ptr (Strides this) 1\<rparr>"
      define B' where "B' = \<lparr>N_t = N_p P' - 1,
                    data_t = data_ptr_add (data_p P') (sint (s * i)),
                    sizes_t = I64Ptr (Sizes this') 1,
                    strides_t = I64Ptr (Strides this') 1\<rparr>"
      from False Some have step: "PackedTensorAccessor_subscript this P i = Some (Accessor B, P)"
        by (simp add: PackedTensorAccessor_subscript_def PackedTensorAccessor_index_def B_def)
      from False Some assms(3,6)
      have step': "PackedTensorAccessor_subscript this' P' i = Some (Accessor B', P')"
        by (simp add: PackedTensorAccessor_subscript_def PackedTensorAccessor_index_def B'_def)
      from assms(4) obtain m where m: "unat (N_p P) = Suc m"
        by (cases "unat (N_p P)") (auto simp: word_le_nat_alt)
      with False have "m \<noteq> 0"
        using unat_eq_1_iff [of "N_p P"] by auto
      from m have "unat (N_t B) = m"
        by (simp add: B_def unat_pred)
      with \<open>m \<noteq> 0\<close> have "1 \<le> N_t B"
        by (simp add: word_le_nat_alt)
      moreover have "N_t B = N_t B'" "data_t B = data_t B'"
        using assms(3,5) by (simp_all add: B_def B'_def)
      moreover have "\<forall>k<unat (N_t B). load_i64 mem (i64_ptr_add (strides_t B) (int k))
                           = load_i64 mem' (i64_ptr_add (strides_t B') (int k))"
        using assms(1,2,6) by (simp add: B_def B'_def)
      ultimately have "TensorAccessor_resolve mem B js = TensorAccessor_resolve mem' B' js"
        by (intro TensorAccessor_resolve_cong)
      with step step' assms(1,2) Cons show ?thesis by simp
    qed
  qed
qed

subsection \<open>Facts about the running example\<close>

lemma example_stride0: "TensorAccessorBase_stride example_memory example_accessor 0 = Some 3"
  by (simp add: TensorAccessorBase_stride_def example_memory_def example_accessor_def array_read_def)

lemma example_N: "2 \<le> N_t example_accessor"
  by (simp add: example_accessor_def)

lemma unat_two: "unat (2::64 word) = Suc (Suc 0)"
  by simp

lemma example_packed_ctor:
  "PackedTensorAccessorBase example_memory 2 (DataPtr 0 0) (I64Ptr (Array 1) 0) (I64Ptr (Array 2) 0)
     = Some example_packed"
  unfolding PackedTensorAccessorBase_def unat_two
  by (simp add: example_memory_def example_packed_def array_read_def)

lemma example_packed_stride0: "PackedTensorAccessorBase_stride example_packed 0 = Some 3"
  by (simp add: PackedTensorAccessorBase_stride_def example_packed_def array_read_def)

lemma example_packed_N: "2 \<le> N_p example_packed"
  by (simp add: example_packed_def)

lemma example_packed_at: "packed example_memory_packed 7 = Some example_packed"
  by (simp add: example_memory_packed_def)

lemma example_row_stride0: "TensorAccessorBase_stride example_memory example_row 0 = Some 1"
  by (simp add: TensorAccessorBase_stride_def example_memory_def example_row_def array_read_def)

lemma example_packed1_stride0: "PackedTensorAccessorBase_stride example_packed1 0 = Some 1"
  by (simp add: PackedTensorAccessorBase_stride_def example_packed1_def array_read_def)

lemma example_store:
  "store_data example_memory (DataPtr 0 5) 99 =
     Some (example_memory\<lparr>buffers := [0 \<mapsto> [10, 11, 12, 13, 14, 99]]\<rparr>)"
  by (simp add: example_memory_def)

lemma example3_valid: "valid_accessor example_memory3 example_accessor3"
proof -
  have "[0..<unat (3::64 word)] = [0, 1, 2]"
    by (simp add: upt_rec)
  then show ?thesis
    by (simp add: valid_accessor_def example_accessor3_def example_memory3_def array_read_def)
qed

lemma example3_subscript:
  "TensorAccessor_subscript example_memory3 example_accessor3 0 =
     Some (Accessor \<lparr>N_t = 2, data_t = DataPtr 0 0, sizes_t = I64Ptr (Array 3) 1,
                     strides_t = I64Ptr (Array 4) 1\<rparr>, example_accessor3)"
  by (simp add: TensorAccessor_subscript_def TensorAccessor_index_def example_accessor3_def
      example_memory3_def array_read_def)

lemma example_readable:
  "\<forall>j<unat (2::64 word). load_i64 example_memory (i64_ptr_add (I64Ptr (Array 1) 0) (int j)) \<noteq> None
        \<and> load_i64 example_memory (i64_ptr_add (I64Ptr (Array 2) 0) (int j)) \<noteq> None"
  by (simp add: example_memory_def array_read_def)

lemma example_later_at: "packed example_memory_later 8 = Some (PackedTensorAccessor_copy example_packed)"
  by (simp add: example_memory_later_def PackedTensorAccessor_copy_eq)

subsection \<open>One step of indexing\<close>

text \<open>
  C1. For a reference accessor \<open>A\<close> with \<open>N \<ge> 2\<close> whose leading stride is readable,
  \<open>A[i]\<close> is an accessor (not an element) of dimensionality \<open>N - 1\<close>; its data pointer is
  \<open>A.data() + A.stride(0) * i\<close>, its sizes and strides pointers are those of \<open>A\<close>
  advanced by one element.
\<close>

theorem TensorAccessor_index_drops_leading_dimension:
  assumes "2 \<le> N_t A"
    and "TensorAccessorBase_stride mem A 0 = Some s"
  shows "TensorAccessor_subscript mem A i =
           Some (Accessor \<lparr>N_t = N_t A - 1,
                           data_t = data_ptr_add (TensorAccessorBase_data A) (sint (s * i)),
                           sizes_t = i64_ptr_add (sizes_t A) 1,
                           strides_t = i64_ptr_add (strides_t A) 1\<rparr>, A)"
proof -
  from assms(1) have "N_t A \<noteq> 1"
    by (auto simp: word_le_nat_alt)
  moreover from assms(2) have "load_i64 mem (strides_t A) = Some s"
    by (simp add: TensorAccessorBase_stride_def i64_ptr_add_0)
  ultimately show ?thesis
    by (simp add: TensorAccessor_subscript_def TensorAccessor_index_def TensorAccessorBase_data_def)
qed

theorem TensorAccessor_index_drops_leading_dimension_witness:
  "2 \<le> N_t example_accessor
   \<and> TensorAccessorBase_stride example_memory example_accessor 0 = Some 3
   \<and> TensorAccessor_subscript example_memory example_accessor 1 =
       Some (Accessor \<lparr>N_t = 1, data_t = DataPtr 0 3,
                       sizes_t = I64Ptr (Array 1) 1, strides_t = I64Ptr (Array 2) 1\<rparr>,
             example_accessor)"
  using TensorAccessor_index_drops_leading_dimension [OF example_N example_stride0, of 1]
  by (simp add: example_N example_stride0) (simp add: example_accessor_def TensorAccessorBase_data_def)

text \<open>
  C2. For a packed accessor \<open>P\<close> with \<open>N \<ge> 2\<close>, stored at address \<open>this\<close>, \<open>P[i]\<close> is a
  reference accessor of dimensionality \<open>N - 1\<close>; its data pointer is that of \<open>P\<close> moved
  by \<open>P.stride(0) * i\<close>, and its sizes and strides pointers point one element into the
  arrays embedded in \<open>P\<close> itself, so that reading its \<open>size(k)\<close> or \<open>stride(k)\<close> reads
  element \<open>k + 1\<close> of those arrays. In the example, the packed accessor built from sizes
  \<open>[2, 3]\<close> and strides \<open>[3, 1]\<close> gives a \<open>P[0]\<close> with \<open>size(0) = 3\<close>, \<open>stride(0) = 1\<close>
  and the data pointer it was built with.
\<close>

theorem PackedTensorAccessor_index_borrows_embedded_arrays:
  assumes "2 \<le> N_p P"
    and "PackedTensorAccessorBase_stride P 0 = Some s"
    and "packed mem this = Some P"
  shows "(let B = \<lparr>N_t = N_p P - 1,
                   data_t = data_ptr_add (data_p P) (sint (s * i)),
                   sizes_t = I64Ptr (Sizes this) 1,
                   strides_t = I64Ptr (Strides this) 1\<rparr>
          in PackedTensorAccessor_subscript this P i = Some (Accessor B, P)
             \<and> TensorAccessorBase_size mem B k = array_read (sizes_p P) (1 + sint k)
             \<and> TensorAccessorBase_stride mem B k = array_read (strides_p P) (1 + sint k))
         \<and> PackedTensorAccessorBase example_memory 2 (DataPtr 0 0) (I64Ptr (Array 1) 0) (I64Ptr (Array 2) 0)
             = Some example_packed
         \<and> (\<exists>B. PackedTensorAccessor_subscript 7 example_packed 0 = Some (Accessor B, example_packed)
               \<and> TensorAccessorBase_size example_memory_packed B 0 = Some 3
               \<and> TensorAccessorBase_stride example_memory_packed B 0 = Some 1
               \<and> TensorAccessorBase_data B = DataPtr 0 0)"
proof -
  from assms(1) have N: "N_p P \<noteq> 1"
    by (auto simp: word_le_nat_alt)
  from assms(2) have s: "array_read (strides_p P) 0 = Some s"
    by (simp add: PackedTensorAccessorBase_stride_def)
  have step: "PackedTensorAccessor_subscript this P i =
      Some (Accessor \<lparr>N_t = N_p P - 1,
                   data_t = data_ptr_add (data_p P) (sint (s * i)),
                   sizes_t = I64Ptr (Sizes this) 1,
                   strides_t = I64Ptr (Strides this) 1\<rparr>, P)"
    using N s by (simp add: PackedTensorAccessor_subscript_def PackedTensorAccessor_index_def)
  have reads: "TensorAccessorBase_size mem \<lparr>N_t = N_p P - 1,
                   data_t = data_ptr_add (data_p P) (sint (s * i)),
                   sizes_t = I64Ptr (Sizes this) 1,
                   strides_t = I64Ptr (Strides this) 1\<rparr> k = array_read (sizes_p P) (1 + sint k)"
     "TensorAccessorBase_stride mem \<lparr>N_t = N_p P - 1,
                   data_t = data_ptr_add (data_p P) (sint (s * i)),
                   sizes_t = I64Ptr (Sizes this) 1,
                   strides_t = I64Ptr (Strides this) 1\<rparr> k = array_read (strides_p P) (1 + sint k)"
    using assms(3) by (simp_all add: TensorAccessorBase_size_def TensorAccessorBase_stride_def)
  have scen: "\<exists>B. PackedTensorAccessor_subscript 7 example_packed 0 = Some (Accessor B, example_packed)
               \<and> TensorAccessorBase_size example_memory_packed B 0 = Some 3
               \<and> TensorAccessorBase_stride example_memory_packed B 0 = Some 1
               \<and> TensorAccessorBase_data B = DataPtr 0 0"
    by (simp add: PackedTensorAccessor_subscript_def PackedTensorAccessor_index_def
        example_packed_def example_memory_packed_def TensorAccessorBase_size_def
        TensorAccessorBase_stride_def TensorAccessorBase_data_def array_read_def)
  show ?thesis
    using step reads scen example_packed_ctor by (simp add: Let_def)
qed

theorem PackedTensorAccessor_index_borrows_embedded_arrays_witness:
  "2 \<le> N_p example_packed
   \<and> PackedTensorAccessorBase_stride example_packed 0 = Some 3
   \<and> packed example_memory_packed 7 = Some example_packed
   \<and> PackedTensorAccessor_subscript 7 example_packed 1 =
       Some (Accessor \<lparr>N_t = 1, data_t = DataPtr 0 3,
                       sizes_t = I64Ptr (Sizes 7) 1, strides_t = I64Ptr (Strides 7) 1\<rparr>,
             example_packed)"
  using PackedTensorAccessor_index_borrows_embedded_arrays [OF example_packed_N example_packed_stride0 example_packed_at, of 1 0]
  by (simp add: example_packed_N example_packed_stride0 example_packed_at Let_def)
     (simp add: example_packed_def)

text \<open>
  C3. For an accessor of dimension one, of either family, \<open>A[i]\<close> is a reference to the
  element at \<open>A.data() + A.stride(0) * i\<close>. A write through a reference succeeds exactly
  when the address holds an element; afterwards that address holds the value written,
  every other address holds what it held before, and no sizes or strides array has
  changed. An accessor of any other dimension never yields an element.
\<close>

theorem index_dimension_one_yields_element:
  "(N_t A = 1 \<and> TensorAccessorBase_stride mem A 0 = Some s \<longrightarrow>
      TensorAccessor_subscript mem A i =
        Some (Element (data_ptr_add (TensorAccessorBase_data A) (sint (s * i))), A))
   \<and> (N_p P = 1 \<and> PackedTensorAccessorBase_stride P 0 = Some s' \<longrightarrow>
      PackedTensorAccessor_subscript this P i =
        Some (Element (data_ptr_add (data_p P) (sint (s' * i))), P))
   \<and> (store_data mem r v = Some mem' \<longrightarrow>
        load_data mem' r = Some v
        \<and> (\<forall>r'. r' \<noteq> r \<longrightarrow> load_data mem' r' = load_data mem r')
        \<and> arrays mem' = arrays mem \<and> packed mem' = packed mem)
   \<and> ((\<exists>m. store_data mem r v = Some m) \<longleftrightarrow> (\<exists>x. load_data mem r = Some x))
   \<and> (N_t A \<noteq> 1 \<longrightarrow> (\<forall>e t. TensorAccessor_subscript mem A i \<noteq> Some (Element e, t)))
   \<and> (N_p P \<noteq> 1 \<longrightarrow> (\<forall>e t. PackedTensorAccessor_subscript this P i \<noteq> Some (Element e, t)))"
proof -
  have ref: "TensorAccessor_subscript mem A i =
        Some (Element (data_ptr_add (TensorAccessorBase_data A) (sint (s * i))), A)"
    if "N_t A = 1" "TensorAccessorBase_stride mem A 0 = Some s"
    using that
    by (simp add: TensorAccessor_subscript_def TensorAccessor1_index_def
        TensorAccessorBase_stride_def TensorAccessorBase_data_def i64_ptr_add_0)
  have pck: "PackedTensorAccessor_subscript this P i =
        Some (Element (data_ptr_add (data_p P) (sint (s' * i))), P)"
    if "N_p P = 1" "PackedTensorAccessorBase_stride P 0 = Some s'"
    using that
    by (simp add: PackedTensorAccessor_subscript_def PackedTensorAccessor1_index_def
        PackedTensorAccessorBase_stride_def)
  have only_ref: "TensorAccessor_subscript mem A i \<noteq> Some (Element e, t)" if "N_t A \<noteq> 1" for e t
    using that by (auto simp: TensorAccessor_subscript_def)
  have only_pck: "PackedTensorAccessor_subscript this P i \<noteq> Some (Element e, t)" if "N_p P \<noteq> 1" for e t
    using that by (auto simp: PackedTensorAccessor_subscript_def)
  show ?thesis
    using ref pck only_ref only_pck load_store_same [of mem r v mem']
      load_store_other [of mem r v mem'] store_data_frame [of mem r v mem']
      store_data_defined [of mem r v]
    by blast
qed

theorem index_dimension_one_yields_element_witness:
  "N_t example_row = 1
   \<and> TensorAccessorBase_stride example_memory example_row 0 = Some 1
   \<and> TensorAccessor_subscript example_memory example_row 2 = Some (Element (DataPtr 0 5), example_row)
   \<and> N_p example_packed1 = 1
   \<and> PackedTensorAccessorBase_stride example_packed1 0 = Some 1
   \<and> PackedTensorAccessor_subscript 7 example_packed1 2 = Some (Element (DataPtr 0 2), example_packed1)
   \<and> store_data example_memory (DataPtr 0 5) 99 =
       Some (example_memory\<lparr>buffers := [0 \<mapsto> [10, 11, 12, 13, 14, 99]]\<rparr>)
   \<and> load_data (example_memory\<lparr>buffers := [0 \<mapsto> [10, 11, 12, 13, 14, 99]]\<rparr>) (DataPtr 0 5) = Some 99
   \<and> load_data (example_memory\<lparr>buffers := [0 \<mapsto> [10, 11, 12, 13, 14, 99]]\<rparr>) (DataPtr 0 4) = Some 14
   \<and> N_t example_accessor \<noteq> 1
   \<and> (\<forall>e t. TensorAccessor_subscript example_memory example_accessor 0 \<noteq> Some (Element e, t))
   \<and> N_p example_packed \<noteq> 1
   \<and> (\<forall>e t. PackedTensorAccessor_subscript 7 example_packed 0 \<noteq> Some (Element e, t))"
proof -
  have n1: "N_t example_row = 1" by (simp add: example_row_def)
  have n2: "N_p example_packed1 = 1" by (simp add: example_packed1_def)
  have n3: "N_t example_accessor \<noteq> 1" by (simp add: example_accessor_def)
  have n4: "N_p example_packed \<noteq> 1" by (simp add: example_packed_def)
  have l4: "load_data example_memory (DataPtr 0 4) = Some 14"
    by (simp add: example_memory_def array_read_def)
  note a = index_dimension_one_yields_element [of example_row example_memory 1 2 example_packed1 1 7 "DataPtr 0 5" 99
      "example_memory\<lparr>buffers := [0 \<mapsto> [10, 11, 12, 13, 14, 99]]\<rparr>"]
  note b = index_dimension_one_yields_element [of example_accessor example_memory 1 0 example_packed 1 7 "DataPtr 0 5" 99
      "example_memory\<lparr>buffers := [0 \<mapsto> [10, 11, 12, 13, 14, 99]]\<rparr>"]
  have e1: "TensorAccessor_subscript example_memory example_row 2 = Some (Element (DataPtr 0 5), example_row)"
    using a n1 example_row_stride0 by (simp add: TensorAccessorBase_data_def example_row_def)
  have e2: "PackedTensorAccessor_subscript 7 example_packed1 2 = Some (Element (DataPtr 0 2), example_packed1)"
    using a n2 example_packed1_stride0 by (simp add: example_packed1_def)
  note w = a [THEN conjunct2, THEN conjunct2, THEN conjunct1, rule_format, OF example_store]
  have e3: "load_data (example_memory\<lparr>buffers := [0 \<mapsto> [10, 11, 12, 13, 14, 99]]\<rparr>) (DataPtr 0 5) = Some 99"
    using w by (rule conjunct1)
  have "DataPtr 0 4 \<noteq> DataPtr 0 5" by simp
  with w have "load_data (example_memory\<lparr>buffers := [0 \<mapsto> [10, 11, 12, 13, 14, 99]]\<rparr>) (DataPtr 0 4)
      = load_data example_memory (DataPtr 0 4)"
    by blast
  with l4 have e4: "load_data (example_memory\<lparr>buffers := [0 \<mapsto> [10, 11, 12, 13, 14, 99]]\<rparr>) (DataPtr 0 4) = Some 14"
    by simp
  have e5: "\<forall>e t. TensorAccessor_subscript example_memory example_accessor 0 \<noteq> Some (Element e, t)"
    using b n3 by blast
  have e6: "\<forall>e t. PackedTensorAccessor_subscript 7 example_packed 0 \<noteq> Some (Element e, t)"
    using b n4 by blast
  show ?thesis
    using n1 n2 n3 n4 e1 e2 e3 e4 e5 e6 example_row_stride0 example_packed1_stride0 example_store
    by blast
qed

text \<open>
  C4. For a valid \<open>N\<close>-dimensional accessor \<open>A\<close> with \<open>N \<ge> 2\<close> and any index \<open>i\<close>, the
  sub-accessor \<open>A[i]\<close> has \<open>A[i].size(k) = A.size(k + 1)\<close> and
  \<open>A[i].stride(k) = A.stride(k + 1)\<close> for every \<open>k\<close> in \<open>[0, N - 2)\<close>, and these reads are
  defined.
\<close>

theorem subaccessor_size_stride_shift:
  assumes "2 \<le> N_t A"
    and "valid_accessor mem A"
    and "TensorAccessor_subscript mem A i = Some (Accessor B, this')"
    and "0 \<le> sint k" and "sint k < uint (N_t A) - 2"
  shows "TensorAccessorBase_size mem B k = TensorAccessorBase_size mem A (k + 1)
       \<and> TensorAccessorBase_stride mem B k = TensorAccessorBase_stride mem A (k + 1)
       \<and> TensorAccessorBase_size mem B k \<noteq> None
       \<and> TensorAccessorBase_stride mem B k \<noteq> None"
proof -
  from assms(1) have N: "N_t A \<noteq> 1"
    by (auto simp: word_le_nat_alt)
  from assms(2) have "uint (N_t A) \<le> 2 ^ 63 - 1"
    by (simp add: valid_accessor_def word_le_def)
  with assms(5) have "sint k < 2 ^ 63 - 1" by simp
  with assms(4) have k1: "sint (k + 1) = sint k + 1"
    by (rule sint_succ)
  from assms(3) N have B: "sizes_t B = i64_ptr_add (sizes_t A) 1"
      "strides_t B = i64_ptr_add (strides_t A) 1"
    by (auto simp: TensorAccessor_subscript_def TensorAccessor_index_def split: option.splits)
  have eq: "TensorAccessorBase_size mem B k = TensorAccessorBase_size mem A (k + 1)"
      "TensorAccessorBase_stride mem B k = TensorAccessorBase_stride mem A (k + 1)"
    unfolding TensorAccessorBase_size_def TensorAccessorBase_stride_def B i64_ptr_add_add k1
    by (simp_all add: add.commute)
  have "int (unat (N_t A)) = uint (N_t A)"
    by simp
  with assms(4,5) have "nat (sint k + 1) < unat (N_t A)"
    by linarith
  from valid_accessor_readable [OF assms(2) this] assms(4)
  have "TensorAccessorBase_size mem A (k + 1) \<noteq> None"
      "TensorAccessorBase_stride mem A (k + 1) \<noteq> None"
    by (auto simp: TensorAccessorBase_size_def TensorAccessorBase_stride_def k1)
  with eq show ?thesis by simp
qed

theorem subaccessor_size_stride_shift_witness:
  "2 \<le> N_t example_accessor3
   \<and> valid_accessor example_memory3 example_accessor3
   \<and> TensorAccessor_subscript example_memory3 example_accessor3 0 =
     Some (Accessor \<lparr>N_t = 2, data_t = DataPtr 0 0, sizes_t = I64Ptr (Array 3) 1,
                     strides_t = I64Ptr (Array 4) 1\<rparr>, example_accessor3)
   \<and> 0 \<le> sint (0 :: int64_t) \<and> sint (0 :: int64_t) < uint (N_t example_accessor3) - 2
   \<and> TensorAccessorBase_size example_memory3
        \<lparr>N_t = 2, data_t = DataPtr 0 0, sizes_t = I64Ptr (Array 3) 1,
                     strides_t = I64Ptr (Array 4) 1\<rparr> 0 = Some 2
   \<and> TensorAccessorBase_size example_memory3 example_accessor3 1 = Some 2
   \<and> TensorAccessorBase_stride example_memory3
        \<lparr>N_t = 2, data_t = DataPtr 0 0, sizes_t = I64Ptr (Array 3) 1,
                     strides_t = I64Ptr (Array 4) 1\<rparr> 0 = Some 3
   \<and> TensorAccessorBase_stride example_memory3 example_accessor3 1 = Some 3"
proof -
  have n: "2 \<le> N_t example_accessor3" by (simp add: example_accessor3_def)
  have k: "0 \<le> sint (0 :: int64_t)" "sint (0 :: int64_t) < uint (N_t example_accessor3) - 2"
    by (simp_all add: example_accessor3_def)
  have v: "TensorAccessorBase_size example_memory3 example_accessor3 1 = Some 2"
     "TensorAccessorBase_stride example_memory3 example_accessor3 1 = Some 3"
    by (simp_all add: TensorAccessorBase_size_def TensorAccessorBase_stride_def
        example_accessor3_def example_memory3_def array_read_def)
  from subaccessor_size_stride_shift [OF n example3_valid example3_subscript k] v
  show ?thesis using n example3_valid example3_subscript k by simp
qed

subsection \<open>Packed accessors are self-contained\<close>

text \<open>
  C5. Round trip. If the sizes and strides arrays hold \<open>N\<close> readable elements, the packed
  constructor returns an accessor, and for every \<open>k\<close> in \<open>[0, N)\<close> its \<open>size(k)\<close> and
  \<open>stride(k)\<close> are the values the source arrays hold at construction time.
\<close>

theorem PackedTensorAccessorBase_round_trip:
  assumes "\<forall>j<unat n. load_i64 mem (i64_ptr_add sizes (int j)) \<noteq> None
                    \<and> load_i64 mem (i64_ptr_add strides (int j)) \<noteq> None"
  shows "\<exists>P. PackedTensorAccessorBase mem n data sizes strides = Some P
           \<and> (\<forall>k. 0 \<le> sint k \<and> sint k < uint n \<longrightarrow>
                (\<exists>v w. PackedTensorAccessorBase_size P k = Some v
                      \<and> load_i64 mem (i64_ptr_add sizes (sint k)) = Some v
                      \<and> PackedTensorAccessorBase_stride P k = Some w
                      \<and> load_i64 mem (i64_ptr_add strides (sint k)) = Some w))"
proof -
  have "std_copy mem sizes (unat n) \<noteq> None"
    by (rule std_copy_defined) (use assms in blast)
  moreover have "std_copy mem strides (unat n) \<noteq> None"
    by (rule std_copy_defined) (use assms in blast)
  ultimately
  obtain P where P: "PackedTensorAccessorBase mem n data sizes strides = Some P"
    by (auto simp: PackedTensorAccessorBase_def)
  have "\<exists>v w. PackedTensorAccessorBase_size P k = Some v
            \<and> load_i64 mem (i64_ptr_add sizes (sint k)) = Some v
            \<and> PackedTensorAccessorBase_stride P k = Some w
            \<and> load_i64 mem (i64_ptr_add strides (sint k)) = Some w"
    if "0 \<le> sint k" "sint k < uint n" for k
  proof -
    from PackedTensorAccessorBase_reads [OF P that]
    show ?thesis
      by (auto simp: PackedTensorAccessorBase_size_def PackedTensorAccessorBase_stride_def)
  qed
  with P show ?thesis by blast
qed

theorem PackedTensorAccessorBase_round_trip_witness:
  "map (load_i64 example_memory) [I64Ptr (Array 1) 0, I64Ptr (Array 1) 1] = [Some 2, Some 3]
   \<and> map (load_i64 example_memory) [I64Ptr (Array 2) 0, I64Ptr (Array 2) 1] = [Some 3, Some 1]
   \<and> PackedTensorAccessorBase example_memory 2 (DataPtr 0 0) (I64Ptr (Array 1) 0) (I64Ptr (Array 2) 0)
        = Some example_packed
   \<and> 0 \<le> sint (1 :: int64_t) \<and> sint (1 :: int64_t) < uint (2 :: size_t)
   \<and> PackedTensorAccessorBase_size example_packed 1 = Some 3
   \<and> load_i64 example_memory (i64_ptr_add (I64Ptr (Array 1) 0) (sint (1 :: int64_t))) = Some 3
   \<and> PackedTensorAccessorBase_stride example_packed 1 = Some 1
   \<and> load_i64 example_memory (i64_ptr_add (I64Ptr (Array 2) 0) (sint (1 :: int64_t))) = Some 1"
proof -
  have k: "0 \<le> sint (1 :: int64_t) \<and> sint (1 :: int64_t) < uint (2 :: size_t)"
    by simp
  from PackedTensorAccessorBase_round_trip [OF example_readable, of "DataPtr 0 0"] example_packed_ctor
  have "\<forall>k. 0 \<le> sint k \<and> sint k < uint (2 :: size_t) \<longrightarrow>
          (\<exists>v w. PackedTensorAccessorBase_size example_packed k = Some v
                \<and> load_i64 example_memory (i64_ptr_add (I64Ptr (Array 1) 0) (sint k)) = Some v
                \<and> PackedTensorAccessorBase_stride example_packed k = Some w
                \<and> load_i64 example_memory (i64_ptr_add (I64Ptr (Array 2) 0) (sint k)) = Some w)"
    by simp
  with k obtain v w where vw: "PackedTensorAccessorBase_size example_packed 1 = Some v"
      "load_i64 example_memory (i64_ptr_add (I64Ptr (Array 1) 0) (sint (1 :: int64_t))) = Some v"
      "PackedTensorAccessorBase_stride example_packed 1 = Some w"
      "load_i64 example_memory (i64_ptr_add (I64Ptr (Array 2) 0) (sint (1 :: int64_t))) = Some w"
    by blast
  have "PackedTensorAccessorBase_size example_packed 1 = Some 3"
    "PackedTensorAccessorBase_stride example_packed 1 = Some 1"
    by (simp_all add: PackedTensorAccessorBase_size_def PackedTensorAccessorBase_stride_def
        example_packed_def array_read_def)
  with vw have "v = 3" "w = 1" by simp_all
  moreover have "map (load_i64 example_memory) [I64Ptr (Array 1) 0, I64Ptr (Array 1) 1] = [Some 2, Some 3]"
    "map (load_i64 example_memory) [I64Ptr (Array 2) 0, I64Ptr (Array 2) 1] = [Some 3, Some 1]"
    by (simp_all add: example_memory_def array_read_def)
  ultimately show ?thesis using vw k example_packed_ctor by blast
qed

text \<open>
  C6. A copy of a packed accessor has the same \<open>size(i)\<close>, \<open>stride(i)\<close> and data pointer
  as the original, for every \<open>i\<close>. These are the values captured when the original was
  constructed: the data pointer passed in and, for \<open>i\<close> in \<open>[0, N)\<close>, the array elements
  read in the memory \<open>mem\<close> of that moment. Wherever the copy is stored, in any later
  memory \<open>mem'\<close> (whatever has become of the source arrays there), reading its embedded
  arrays gives the same values.
\<close>

theorem PackedTensorAccessor_copy_self_contained:
  assumes "PackedTensorAccessorBase mem n data sizes strides = Some P"
    and "packed (mem' :: 'b memory) that = Some (PackedTensorAccessor_copy P)"
  shows "PackedTensorAccessorBase_size (PackedTensorAccessor_copy P) i = PackedTensorAccessorBase_size P i
       \<and> PackedTensorAccessorBase_stride (PackedTensorAccessor_copy P) i = PackedTensorAccessorBase_stride P i
       \<and> data_p (PackedTensorAccessor_copy P) = data_p P
       \<and> data_p (PackedTensorAccessor_copy P) = data
       \<and> (0 \<le> sint i \<and> sint i < uint n \<longrightarrow>
            PackedTensorAccessorBase_size (PackedTensorAccessor_copy P) i
              = load_i64 mem (i64_ptr_add sizes (sint i))
          \<and> PackedTensorAccessorBase_stride (PackedTensorAccessor_copy P) i
              = load_i64 mem (i64_ptr_add strides (sint i))
          \<and> PackedTensorAccessorBase_size (PackedTensorAccessor_copy P) i \<noteq> None
          \<and> PackedTensorAccessorBase_stride (PackedTensorAccessor_copy P) i \<noteq> None)
       \<and> load_i64 mem' (I64Ptr (Sizes that) (sint i)) = PackedTensorAccessorBase_size P i
       \<and> load_i64 mem' (I64Ptr (Strides that) (sint i)) = PackedTensorAccessorBase_stride P i"
proof -
  have d: "data_p P = data"
    using PackedTensorAccessorBase_wf [OF assms(1)] by simp
  have r: "PackedTensorAccessorBase_size P i = load_i64 mem (i64_ptr_add sizes (sint i))
          \<and> PackedTensorAccessorBase_stride P i = load_i64 mem (i64_ptr_add strides (sint i))
          \<and> PackedTensorAccessorBase_size P i \<noteq> None
          \<and> PackedTensorAccessorBase_stride P i \<noteq> None"
    if "0 \<le> sint i" "sint i < uint n"
    using PackedTensorAccessorBase_reads [OF assms(1) that]
    by (simp add: PackedTensorAccessorBase_size_def PackedTensorAccessorBase_stride_def)
  have m: "load_i64 mem' (I64Ptr (Sizes that) (sint i)) = PackedTensorAccessorBase_size P i"
    "load_i64 mem' (I64Ptr (Strides that) (sint i)) = PackedTensorAccessorBase_stride P i"
    using assms(2)
    by (simp_all add: PackedTensorAccessor_copy_eq PackedTensorAccessorBase_size_def
        PackedTensorAccessorBase_stride_def)
  show ?thesis
    unfolding PackedTensorAccessor_copy_eq using d r m by blast
qed

theorem PackedTensorAccessor_copy_self_contained_witness:
  "PackedTensorAccessorBase example_memory 2 (DataPtr 0 0) (I64Ptr (Array 1) 0) (I64Ptr (Array 2) 0)
     = Some example_packed
   \<and> packed example_memory_later 8 = Some (PackedTensorAccessor_copy example_packed)
   \<and> arrays example_memory_later = Map.empty
   \<and> 0 \<le> sint (1 :: int64_t) \<and> sint (1 :: int64_t) < uint (2 :: size_t)
   \<and> PackedTensorAccessorBase_size (PackedTensorAccessor_copy example_packed) 1 = Some 3
   \<and> PackedTensorAccessorBase_stride (PackedTensorAccessor_copy example_packed) 1 = Some 1
   \<and> data_p (PackedTensorAccessor_copy example_packed) = DataPtr 0 0
   \<and> load_i64 example_memory_later (I64Ptr (Sizes 8) (sint (1 :: int64_t))) = Some 3
   \<and> load_i64 example_memory_later (I64Ptr (Strides 8) (sint (1 :: int64_t))) = Some 1"
proof -
  have k: "0 \<le> sint (1 :: int64_t) \<and> sint (1 :: int64_t) < uint (2 :: size_t)"
    by simp
  have v: "PackedTensorAccessorBase_size example_packed 1 = Some 3"
    "PackedTensorAccessorBase_stride example_packed 1 = Some 1"
    by (simp_all add: PackedTensorAccessorBase_size_def PackedTensorAccessorBase_stride_def
        example_packed_def array_read_def)
  have a: "arrays example_memory_later = Map.empty"
    by (simp add: example_memory_later_def)
  have "PackedTensorAccessorBase_size (PackedTensorAccessor_copy example_packed) 1 = Some 3
   \<and> PackedTensorAccessorBase_stride (PackedTensorAccessor_copy example_packed) 1 = Some 1
   \<and> data_p (PackedTensorAccessor_copy example_packed) = DataPtr 0 0
   \<and> load_i64 example_memory_later (I64Ptr (Sizes 8) (sint (1 :: int64_t))) = Some 3
   \<and> load_i64 example_memory_later (I64Ptr (Strides 8) (sint (1 :: int64_t))) = Some 1"
    using PackedTensorAccessor_copy_self_contained [OF example_packed_ctor example_later_at, of 1] unfolding v by blast
  with k a example_packed_ctor example_later_at show ?thesis by blast
qed

subsection \<open>Frame\<close>

text \<open>
  C7. Indexing does not change its receiver: whatever \<open>operator[]\<close> returns, for either
  family and any \<open>N\<close>, the receiver after the call is the receiver before it (and so is
  it after the non-\<open>const\<close> \<open>data()\<close>; every other member function is \<open>const\<close>). An
  accessor returned by indexing is a value different from the receiver. The result is
  a function of the receiver and \<open>i\<close>: memories that agree on the receiver's leading
  stride give the same result. No subscript operator returns a memory, so none writes.
\<close>

theorem subscript_leaves_receiver_unchanged:
  "(TensorAccessor_subscript mem A i = Some (r, this') \<longrightarrow> this' = A)
   \<and> (PackedTensorAccessor_subscript this P i = Some (r', P') \<longrightarrow> P' = P)
   \<and> snd (TensorAccessorBase_data_nonconst A) = A
   \<and> (TensorAccessor_subscript mem A i = Some (Accessor B, this') \<longrightarrow> B \<noteq> A)
   \<and> (TensorAccessorBase_stride mem A 0 = TensorAccessorBase_stride mem2 A 0 \<longrightarrow>
        TensorAccessor_subscript mem A i = TensorAccessor_subscript mem2 A i)"
proof -
  have a: "this' = A" if "TensorAccessor_subscript mem A i = Some (r, this')"
    using that
    by (auto simp: TensorAccessor_subscript_def TensorAccessor_index_def TensorAccessor1_index_def
        split: if_splits option.splits)
  have b: "P' = P" if "PackedTensorAccessor_subscript this P i = Some (r', P')"
    using that
    by (auto simp: PackedTensorAccessor_subscript_def PackedTensorAccessor_index_def
        PackedTensorAccessor1_index_def split: if_splits option.splits)
  have c: "B \<noteq> A" if "TensorAccessor_subscript mem A i = Some (Accessor B, this')"
  proof -
    from that have "N_t B = N_t A - 1"
      by (auto simp: TensorAccessor_subscript_def TensorAccessor_index_def
          split: if_splits option.splits)
    then have "N_t B \<noteq> N_t A" by simp
    then show ?thesis by auto
  qed
  have d: "TensorAccessor_subscript mem A i = TensorAccessor_subscript mem2 A i"
    if "TensorAccessorBase_stride mem A 0 = TensorAccessorBase_stride mem2 A 0"
    using that
    by (simp add: TensorAccessor_subscript_def TensorAccessor_index_def TensorAccessor1_index_def
        TensorAccessorBase_stride_def i64_ptr_add_0)
  show ?thesis
    using a b c d by (simp add: TensorAccessorBase_data_nonconst_def)
qed

theorem subscript_leaves_receiver_unchanged_witness:
  "TensorAccessor_subscript example_memory example_accessor 1 = Some (Accessor example_row, example_accessor)
   \<and> PackedTensorAccessor_subscript 7 example_packed 1 =
       Some (Accessor \<lparr>N_t = 1, data_t = DataPtr 0 3,
                       sizes_t = I64Ptr (Sizes 7) 1, strides_t = I64Ptr (Strides 7) 1\<rparr>,
             example_packed)
   \<and> example_row \<noteq> example_accessor
   \<and> TensorAccessorBase_stride example_memory example_accessor 0
       = TensorAccessorBase_stride example_memory_other example_accessor 0
   \<and> TensorAccessor_subscript example_memory example_accessor 1
       = TensorAccessor_subscript example_memory_other example_accessor 1"
proof -
  have r: "TensorAccessor_subscript example_memory example_accessor 1 = Some (Accessor example_row, example_accessor)"
    by (simp add: TensorAccessor_subscript_def TensorAccessor_index_def example_accessor_def
        example_row_def example_memory_def array_read_def)
  have p: "PackedTensorAccessor_subscript 7 example_packed 1 =
       Some (Accessor \<lparr>N_t = 1, data_t = DataPtr 0 3,
                       sizes_t = I64Ptr (Sizes 7) 1, strides_t = I64Ptr (Strides 7) 1\<rparr>,
             example_packed)"
    by (simp add: PackedTensorAccessor_subscript_def PackedTensorAccessor_index_def
        example_packed_def array_read_def)
  have s: "TensorAccessorBase_stride example_memory example_accessor 0
       = TensorAccessorBase_stride example_memory_other example_accessor 0"
    by (simp add: TensorAccessorBase_stride_def example_memory_other_def example_accessor_def)
  note inst = subscript_leaves_receiver_unchanged [of example_memory example_accessor 1 "Accessor example_row" example_accessor
      7 example_packed "Accessor \<lparr>N_t = 1, data_t = DataPtr 0 3,
                       sizes_t = I64Ptr (Sizes 7) 1, strides_t = I64Ptr (Strides 7) 1\<rparr>"
      example_packed example_row example_memory_other]
  from inst r have "example_row \<noteq> example_accessor" by blast
  moreover from inst s have "TensorAccessor_subscript example_memory example_accessor 1
       = TensorAccessor_subscript example_memory_other example_accessor 1" by blast
  ultimately show ?thesis using r p s by blast
qed

subsection \<open>Addresses of chained subscripts\<close>

text \<open>
  C8. In the example (buffer \<open>[10, ..., 15]\<close>, sizes \<open>[2, 3]\<close>, strides \<open>[3, 1]\<close>), \<open>A[1][2]\<close>
  resolves to the address \<open>data + 1 * 3 + 2 * 1\<close>, which is element 5 of the buffer and
  holds 15.
\<close>

theorem example_chained_index:
  "buffers example_memory 0 = Some [10, 11, 12, 13, 14, 15]
   \<and> TensorAccessorBase_data example_accessor = DataPtr 0 0
   \<and> map (TensorAccessorBase_size example_memory example_accessor) [0, 1] = [Some 2, Some 3]
   \<and> map (TensorAccessorBase_stride example_memory example_accessor) [0, 1] = [Some 3, Some 1]
   \<and> TensorAccessor_resolve example_memory example_accessor [1, 2]
        = Some (data_ptr_add (TensorAccessorBase_data example_accessor) (1 * 3 + 2 * 1))
   \<and> data_ptr_add (TensorAccessorBase_data example_accessor) (1 * 3 + 2 * 1) = DataPtr 0 5
   \<and> load_data example_memory (DataPtr 0 5) = Some 15"
  by (simp add: example_memory_def example_accessor_def TensorAccessorBase_data_def
      TensorAccessorBase_size_def TensorAccessorBase_stride_def TensorAccessor_subscript_def
      TensorAccessor_index_def TensorAccessor1_index_def array_read_def)

text \<open>
  C9. For an accessor of dimension \<open>N \<ge> 1\<close> with strides \<open>s\<^sub>0, ..., s\<^sub>N\<^sub>-\<^sub>1\<close> and \<open>N\<close> indices,
  the chain \<open>A[i\<^sub>0]...[i\<^sub>N\<^sub>-\<^sub>1]\<close> resolves to the element at offset
  \<open>s\<^sub>0 * i\<^sub>0 + ... + s\<^sub>N\<^sub>-\<^sub>1 * i\<^sub>N\<^sub>-\<^sub>1\<close> from the data pointer; the same holds for a packed
  accessor, whose first subscript returns a reference accessor into its own arrays.
  When no product overflows \<open>int64_t\<close>, the offset is the sum of the products of the
  signed values.
\<close>

theorem chained_index_linear_offset:
  "(unat (N_t A) = length is \<and> is \<noteq> [] \<and> length ss = length is
      \<and> (\<forall>k<length is. load_i64 mem (i64_ptr_add (strides_t A) (int k)) = Some (ss ! k)) \<longrightarrow>
      TensorAccessor_resolve mem A is
        = Some (data_ptr_add (TensorAccessorBase_data A) (linear_offset ss is)))
   \<and> (packed mem this = Some P \<and> packed_wf P \<and> unat (N_p P) = length is \<and> is \<noteq> [] \<longrightarrow>
      PackedTensorAccessor_resolve mem this is
        = Some (data_ptr_add (data_p P) (linear_offset (strides_p P) is)))
   \<and> (list_all (\<lambda>(s, i). - (2 ^ 63) \<le> sint s * sint i \<and> sint s * sint i < 2 ^ 63) (zip ss is) \<longrightarrow>
        linear_offset ss is = sum_list (map (\<lambda>(s, i). sint s * sint i) (zip ss is)))"
proof -
  have ref: "TensorAccessor_resolve mem A is
        = Some (data_ptr_add (TensorAccessorBase_data A) (linear_offset ss is))"
    if "unat (N_t A) = length is" "is \<noteq> []" "length ss = length is"
      "\<forall>k<length is. load_i64 mem (i64_ptr_add (strides_t A) (int k)) = Some (ss ! k)"
  proof -
    from that(3,4) have "std_copy mem (strides_t A) (length is) = Some ss"
      by (intro std_copy_complete) auto
    from TensorAccessor_resolve_offset [OF this that(1,2)] show ?thesis
      by (simp add: TensorAccessorBase_data_def)
  qed
  show ?thesis
    using ref PackedTensorAccessor_resolve_offset [of mem this P "is"]
      linear_offset_no_overflow [of ss "is"]
    by blast
qed

theorem chained_index_linear_offset_witness:
  "unat (N_t example_accessor) = length [1, 2 :: int64_t]
   \<and> map (\<lambda>k. load_i64 example_memory_packed (i64_ptr_add (strides_t example_accessor) k)) [0, 1]
        = [Some 3, Some 1]
   \<and> TensorAccessor_resolve example_memory_packed example_accessor [1, 2] = Some (DataPtr 0 5)
   \<and> packed example_memory_packed 7 = Some example_packed \<and> packed_wf example_packed
   \<and> unat (N_p example_packed) = length [1, 2 :: int64_t]
   \<and> PackedTensorAccessor_resolve example_memory_packed 7 [1, 2] = Some (DataPtr 0 5)
   \<and> list_all (\<lambda>(s, i). - (2 ^ 63) \<le> sint s * sint i \<and> sint s * sint i < 2 ^ 63)
        (zip [3, 1 :: int64_t] [1, 2 :: int64_t])
   \<and> linear_offset [3, 1] [1, 2] = 1 * 3 + 2 * 1"
proof -
  have h1: "unat (N_t example_accessor) = length [1, 2 :: int64_t]"
    by (simp add: example_accessor_def)
  have h2: "\<forall>k<length [1, 2 :: int64_t].
        load_i64 example_memory_packed (i64_ptr_add (strides_t example_accessor) (int k)) = Some ([3, 1] ! k)"
    by (simp add: example_accessor_def example_memory_packed_def example_memory_def array_read_def
        less_Suc_eq)
  have h3: "packed_wf example_packed" "unat (N_p example_packed) = length [1, 2 :: int64_t]"
    by (simp_all add: packed_wf_def example_packed_def)
  have h4: "list_all (\<lambda>(s, i). - (2 ^ 63) \<le> sint s * sint i \<and> sint s * sint i < 2 ^ 63)
        (zip [3, 1 :: int64_t] [1, 2 :: int64_t])"
    by simp
  have d: "TensorAccessorBase_data example_accessor = DataPtr 0 0" "data_p example_packed = DataPtr 0 0"
      "strides_p example_packed = [3, 1]"
    by (simp_all add: TensorAccessorBase_data_def example_accessor_def example_packed_def)
  note inst = chained_index_linear_offset [of example_accessor "[1, 2]" "[3, 1]" example_memory_packed 7 example_packed]
  from inst h4 have lo: "linear_offset [3, 1] [1, 2 :: int64_t] = 5"
    by simp
  from inst h1 h2 have "TensorAccessor_resolve example_memory_packed example_accessor [1, 2]
      = Some (data_ptr_add (TensorAccessorBase_data example_accessor) (linear_offset [3, 1] [1, 2]))"
    by simp
  then have r1: "TensorAccessor_resolve example_memory_packed example_accessor [1, 2] = Some (DataPtr 0 5)"
    by (simp add: d lo)
  from inst h3 example_packed_at have "PackedTensorAccessor_resolve example_memory_packed 7 [1, 2]
      = Some (data_ptr_add (data_p example_packed) (linear_offset (strides_p example_packed) [1, 2]))"
    by simp
  then have r2: "PackedTensorAccessor_resolve example_memory_packed 7 [1, 2] = Some (DataPtr 0 5)"
    by (simp add: d lo)
  have h2': "map (\<lambda>k. load_i64 example_memory_packed (i64_ptr_add (strides_t example_accessor) k)) [0, 1]
        = [Some 3, Some 1]"
    by (simp add: example_accessor_def example_memory_packed_def example_memory_def array_read_def)
  from h1 h2' h3 h4 r1 r2 lo example_packed_at show ?thesis
    by simp
qed

text \<open>
  C10. Sizes do not influence addressing. Two reference accessors of the same dimension
  with the same data pointer whose strides arrays hold the same \<open>N\<close> values (in possibly
  different memories, with any sizes whatsoever) resolve every chain of subscripts to
  the same element address; so do two packed accessors with the same data pointer and
  strides. For a single subscript, the address designated by the result is the same as
  soon as the dimension, the data pointer and \<open>stride(0)\<close> are.
\<close>

theorem resolve_independent_of_sizes:
  "(N_t A = N_t A' \<and> 1 \<le> N_t A \<and> data_t A = data_t A'
      \<and> (\<forall>k<unat (N_t A). load_i64 mem (i64_ptr_add (strides_t A) (int k))
                           = load_i64 mem' (i64_ptr_add (strides_t A') (int k))) \<longrightarrow>
      TensorAccessor_resolve mem A is = TensorAccessor_resolve mem' A' is)
   \<and> (packed mem this = Some P \<and> packed mem' this' = Some P'
      \<and> N_p P = N_p P' \<and> 1 \<le> N_p P \<and> data_p P = data_p P' \<and> strides_p P = strides_p P' \<longrightarrow>
      PackedTensorAccessor_resolve mem this is = PackedTensorAccessor_resolve mem' this' is)
   \<and> (N_t A = N_t A' \<and> data_t A = data_t A'
      \<and> TensorAccessorBase_stride mem A 0 = TensorAccessorBase_stride mem' A' 0 \<longrightarrow>
      map_option (subscript_data \<circ> fst) (TensorAccessor_subscript mem A i)
        = map_option (subscript_data \<circ> fst) (TensorAccessor_subscript mem' A' i))
   \<and> (N_p P = N_p P' \<and> data_p P = data_p P'
      \<and> PackedTensorAccessorBase_stride P 0 = PackedTensorAccessorBase_stride P' 0 \<longrightarrow>
      map_option (subscript_data \<circ> fst) (PackedTensorAccessor_subscript this P i)
        = map_option (subscript_data \<circ> fst) (PackedTensorAccessor_subscript this' P' i))"
proof -
  have one: "map_option (subscript_data \<circ> fst) (TensorAccessor_subscript mem A i)
        = map_option (subscript_data \<circ> fst) (TensorAccessor_subscript mem' A' i)"
    if "N_t A = N_t A'" "data_t A = data_t A'"
      "TensorAccessorBase_stride mem A 0 = TensorAccessorBase_stride mem' A' 0"
    using that
    by (auto simp: TensorAccessor_subscript_def TensorAccessor_index_def TensorAccessor1_index_def
        TensorAccessorBase_stride_def i64_ptr_add_0 split: option.splits)
  have onep: "map_option (subscript_data \<circ> fst) (PackedTensorAccessor_subscript this P i)
        = map_option (subscript_data \<circ> fst) (PackedTensorAccessor_subscript this' P' i)"
    if "N_p P = N_p P'" "data_p P = data_p P'"
      "PackedTensorAccessorBase_stride P 0 = PackedTensorAccessorBase_stride P' 0"
    using that
    by (auto simp: PackedTensorAccessor_subscript_def PackedTensorAccessor_index_def
        PackedTensorAccessor1_index_def PackedTensorAccessorBase_stride_def split: option.splits)
  show ?thesis
    using one onep TensorAccessor_resolve_cong [of A A' mem mem' "is"]
      PackedTensorAccessor_resolve_cong [of mem this P mem' this' P' "is"]
    by blast
qed

theorem resolve_independent_of_sizes_witness:
  "N_t example_accessor = N_t example_accessor_resized \<and> 1 \<le> N_t example_accessor
   \<and> data_t example_accessor = data_t example_accessor_resized
   \<and> map (\<lambda>k. load_i64 example_memory_packed (i64_ptr_add (strides_t example_accessor) k)) [0, 1]
        = [Some 3, Some 1]
   \<and> map (\<lambda>k. load_i64 example_memory_resized (i64_ptr_add (strides_t example_accessor_resized) k)) [0, 1]
        = [Some 3, Some 1]
   \<and> TensorAccessorBase_size example_memory_packed example_accessor 0 = Some 2
   \<and> TensorAccessorBase_size example_memory_resized example_accessor_resized 0 = Some 7
   \<and> TensorAccessor_resolve example_memory_resized example_accessor_resized [1, 2] = Some (DataPtr 0 5)
   \<and> packed example_memory_packed 7 = Some example_packed
   \<and> packed example_memory_resized 9 = Some (example_packed\<lparr>sizes_p := [7, 9]\<rparr>)
   \<and> PackedTensorAccessor_resolve example_memory_resized 9 [1, 2] = Some (DataPtr 0 5)
   \<and> map_option (subscript_data \<circ> fst)
        (TensorAccessor_subscript example_memory_resized example_accessor_resized 1) = Some (DataPtr 0 3)
   \<and> map_option (subscript_data \<circ> fst)
        (PackedTensorAccessor_subscript 9 (example_packed\<lparr>sizes_p := [7, 9]\<rparr>) 1) = Some (DataPtr 0 3)"
proof -
  have h1: "N_t example_accessor = N_t example_accessor_resized" "1 \<le> N_t example_accessor"
      "data_t example_accessor = data_t example_accessor_resized"
    by (simp_all add: example_accessor_resized_def example_accessor_def)
  have h2: "\<forall>k<unat (N_t example_accessor).
        load_i64 example_memory_packed (i64_ptr_add (strides_t example_accessor) (int k))
          = load_i64 example_memory_resized (i64_ptr_add (strides_t example_accessor_resized) (int k))"
    by (simp add: example_accessor_resized_def example_accessor_def example_memory_packed_def
        example_memory_def example_memory_resized_def)
  have h3: "packed example_memory_resized 9 = Some (example_packed\<lparr>sizes_p := [7, 9]\<rparr>)"
    by (simp add: example_memory_resized_def)
  have h4: "N_p example_packed = N_p (example_packed\<lparr>sizes_p := [7, 9]\<rparr>)" "1 \<le> N_p example_packed"
      "data_p example_packed = data_p (example_packed\<lparr>sizes_p := [7, 9]\<rparr>)"
      "strides_p example_packed = strides_p (example_packed\<lparr>sizes_p := [7, 9]\<rparr>)"
    by (simp_all add: example_packed_def)
  have h5: "TensorAccessorBase_stride example_memory_packed example_accessor 0
      = TensorAccessorBase_stride example_memory_resized example_accessor_resized 0"
    by (simp add: TensorAccessorBase_stride_def example_accessor_resized_def example_accessor_def
        example_memory_packed_def example_memory_def example_memory_resized_def)
  have h6: "PackedTensorAccessorBase_stride example_packed 0
      = PackedTensorAccessorBase_stride (example_packed\<lparr>sizes_p := [7, 9]\<rparr>) 0"
    by (simp add: PackedTensorAccessorBase_stride_def)
  have s: "TensorAccessorBase_size example_memory_packed example_accessor 0 = Some 2"
    "TensorAccessorBase_size example_memory_resized example_accessor_resized 0 = Some 7"
    by (simp_all add: TensorAccessorBase_size_def example_accessor_resized_def example_accessor_def
        example_memory_packed_def example_memory_def example_memory_resized_def array_read_def)
  have v: "TensorAccessor_resolve example_memory_packed example_accessor [1, 2] = Some (DataPtr 0 5)"
    "PackedTensorAccessor_resolve example_memory_packed 7 [1, 2] = Some (DataPtr 0 5)"
    "map_option (subscript_data \<circ> fst)
        (TensorAccessor_subscript example_memory_packed example_accessor 1) = Some (DataPtr 0 3)"
    "map_option (subscript_data \<circ> fst)
        (PackedTensorAccessor_subscript 7 example_packed 1) = Some (DataPtr 0 3)"
    by (simp_all add: example_memory_packed_def example_memory_def example_accessor_def
        example_packed_def TensorAccessor_subscript_def
        TensorAccessor_index_def TensorAccessor1_index_def PackedTensorAccessor_subscript_def
        PackedTensorAccessor_index_def PackedTensorAccessor1_index_def array_read_def)
  note inst = resolve_independent_of_sizes [of example_accessor example_accessor_resized example_memory_packed
      example_memory_resized "[1, 2]" 7 example_packed 9 "example_packed\<lparr>sizes_p := [7, 9]\<rparr>" 1]
  from inst h1 h2 v(1)
  have r1: "TensorAccessor_resolve example_memory_resized example_accessor_resized [1, 2] = Some (DataPtr 0 5)"
    by metis
  from inst example_packed_at h3 h4 v(2)
  have r2: "PackedTensorAccessor_resolve example_memory_resized 9 [1, 2] = Some (DataPtr 0 5)"
    by metis
  from inst h1 h5 v(3)
  have r3: "map_option (subscript_data \<circ> fst)
        (TensorAccessor_subscript example_memory_resized example_accessor_resized 1) = Some (DataPtr 0 3)"
    by metis
  from inst h4 h6 v(4)
  have r4: "map_option (subscript_data \<circ> fst)
        (PackedTensorAccessor_subscript 9 (example_packed\<lparr>sizes_p := [7, 9]\<rparr>) 1) = Some (DataPtr 0 3)"
    by metis
  have h2': "map (\<lambda>k. load_i64 example_memory_packed (i64_ptr_add (strides_t example_accessor) k)) [0, 1]
        = [Some 3, Some 1]"
    "map (\<lambda>k. load_i64 example_memory_resized (i64_ptr_add (strides_t example_accessor_resized) k)) [0, 1]
        = [Some 3, Some 1]"
    by (simp_all add: example_accessor_resized_def example_accessor_def example_memory_packed_def
        example_memory_def example_memory_resized_def array_read_def)
  from h1 h2' h3 s r1 r2 r3 r4 example_packed_at show ?thesis
    by blast
qed

end
